theory Spec2Isabelle
  imports Main "HOL-Library.Word"
begin

section \<open>Python and D-Bus values\<close>

text \<open>
  The client of \<^verbatim>\<open>src/dbustest.py\<close> handles the replies of the display service as
  untyped Python values and reads them by position (\<^verbatim>\<open>resources[1]\<close>,
  \<^verbatim>\<open>mode_info[4]\<close>). The values are modelled by one datatype:
  \<^item> \<open>PInt\<close>: Python's unbounded \<^verbatim>\<open>int\<close> and its D-Bus subclasses (\<^verbatim>\<open>dbus.UInt32\<close>, ...);
  \<^item> \<open>PBool\<close>: \<^verbatim>\<open>bool\<close> and \<^verbatim>\<open>dbus.Boolean\<close>;
  \<^item> \<open>PDouble\<close>: \<^verbatim>\<open>float\<close> and \<^verbatim>\<open>dbus.Double\<close>, kept as the 64 bits of the IEEE 754
    value; the program stores and forwards doubles and never computes with them;
  \<^item> \<open>PStr\<close>: \<^verbatim>\<open>str\<close> and \<^verbatim>\<open>dbus.String\<close>;
  \<^item> \<open>PList\<close>: \<^verbatim>\<open>list\<close> and \<^verbatim>\<open>dbus.Array\<close>; \<open>PTuple\<close>: \<^verbatim>\<open>tuple\<close> and \<^verbatim>\<open>dbus.Struct\<close>;
  \<^item> \<open>PDict\<close>: a \<^verbatim>\<open>dict\<close> with string keys (the \<^verbatim>\<open>a{sv}\<close> of the service and the
    literal \<^verbatim>\<open>{}\<close> of the client), written as the list of pairs it was built from, in
    insertion order: a later pair with the same key replaces the value and keeps the
    position of the first.
\<close>

datatype pyval =
    PNone
  | PBool bool
  | PInt int
  | PDouble "64 word"
  | PStr string
  | PList "pyval list"
  | PTuple "pyval list"
  | PDict "(string \<times> pyval) list"

text \<open>The exceptions the modelled code can raise. \<open>DBusException\<close> is what a proxy method
  raises when the service rejects a call or cannot be reached.\<close>

datatype py_error = IndexError | KeyError | TypeError | ValueError | DBusException string

definition double_1_0 :: "64 word" where
  \<comment> \<open>the IEEE 754 binary64 encoding of 1.0: sign 0, biased exponent 1023, fraction 0\<close>
  "double_1_0 = 0x3FF0000000000000"

subsection \<open>Subscripting, iteration, length, membership\<close>

definition seq_index :: "'a list \<Rightarrow> int \<Rightarrow> py_error + 'a" where
  \<comment> \<open>\<^verbatim>\<open>xs[i]\<close> on a sequence: a negative index counts from the end, anything outside raises\<close>
  "seq_index xs i =
     (if 0 \<le> i \<and> i < int (length xs) then Inr (xs ! nat i)
      else if i < 0 \<and> - int (length xs) \<le> i then Inr (xs ! nat (int (length xs) + i))
      else Inl IndexError)"

definition dict_keys :: "(string \<times> pyval) list \<Rightarrow> string list" where
  \<comment> \<open>the keys in insertion order, each once, at its first position\<close>
  "dict_keys kvs = rev (remdups (rev (map fst kvs)))"

definition dict_get :: "(string \<times> pyval) list \<Rightarrow> string \<Rightarrow> pyval option" where
  \<comment> \<open>the value of the last pair with that key\<close>
  "dict_get kvs k = map_of (rev kvs) k"

fun py_hashable :: "pyval \<Rightarrow> bool" where
  "py_hashable (PList xs) = False"
| "py_hashable (PDict kvs) = False"
| "py_hashable (PTuple xs) = list_all py_hashable xs"
| "py_hashable v = True"

fun index_of :: "pyval \<Rightarrow> int option" where
  \<comment> \<open>the values Python accepts as a sequence index: \<^verbatim>\<open>int\<close> and its subclass \<^verbatim>\<open>bool\<close>\<close>
  "index_of (PInt i) = Some i"
| "index_of (PBool b) = Some (if b then 1 else 0)"
| "index_of v = None"

fun py_getitem :: "pyval \<Rightarrow> pyval \<Rightarrow> py_error + pyval" where
  \<comment> \<open>\<^verbatim>\<open>c[k]\<close>\<close>
  "py_getitem (PList xs) k =
     (case index_of k of None \<Rightarrow> Inl TypeError | Some i \<Rightarrow> seq_index xs i)"
| "py_getitem (PTuple xs) k =
     (case index_of k of None \<Rightarrow> Inl TypeError | Some i \<Rightarrow> seq_index xs i)"
| "py_getitem (PStr s) k =
     (case index_of k of None \<Rightarrow> Inl TypeError
      | Some i \<Rightarrow> (case seq_index s i of Inl e \<Rightarrow> Inl e | Inr c \<Rightarrow> Inr (PStr [c])))"
| "py_getitem (PDict kvs) k =
     (if \<not> py_hashable k then Inl TypeError
      else case k of
        PStr s \<Rightarrow> (case dict_get kvs s of None \<Rightarrow> Inl KeyError | Some v \<Rightarrow> Inr v)
      | _ \<Rightarrow> Inl KeyError)"
| "py_getitem v k = Inl TypeError"

fun py_iter :: "pyval \<Rightarrow> py_error + pyval list" where
  \<comment> \<open>the items a \<^verbatim>\<open>for\<close> loop, an unpacking or \<^verbatim>\<open>join\<close> draws from a value\<close>
  "py_iter (PList xs) = Inr xs"
| "py_iter (PTuple xs) = Inr xs"
| "py_iter (PStr s) = Inr (map (\<lambda>c. PStr [c]) s)"
| "py_iter (PDict kvs) = Inr (map PStr (dict_keys kvs))"
| "py_iter v = Inl TypeError"

fun py_len :: "pyval \<Rightarrow> py_error + pyval" where
  \<comment> \<open>\<^verbatim>\<open>len(v)\<close>\<close>
  "py_len (PList xs) = Inr (PInt (int (length xs)))"
| "py_len (PTuple xs) = Inr (PInt (int (length xs)))"
| "py_len (PStr s) = Inr (PInt (int (length s)))"
| "py_len (PDict kvs) = Inr (PInt (int (length (dict_keys kvs))))"
| "py_len v = Inl TypeError"

fun is_substring :: "string \<Rightarrow> string \<Rightarrow> bool" where
  "is_substring p [] = (p = [])"
| "is_substring p (c # cs) = (take (length p) (c # cs) = p \<or> is_substring p cs)"

fun str_in :: "string \<Rightarrow> pyval \<Rightarrow> py_error + bool" where
  \<comment> \<open>\<^verbatim>\<open>"..." in v\<close> for a string on the left: an equal element of a sequence, a key of a
      dict, a substring of a string\<close>
  "str_in p (PList xs) = Inr (PStr p \<in> set xs)"
| "str_in p (PTuple xs) = Inr (PStr p \<in> set xs)"
| "str_in p (PDict kvs) = Inr (p \<in> set (map fst kvs))"
| "str_in p (PStr s) = Inr (is_substring p s)"
| "str_in p v = Inl TypeError"

subsection \<open>Text\<close>

text \<open>
  \<^verbatim>\<open>str(v)\<close> of a string is the string. The text of any other value (the digits of an
  integer, the shortest round-trip digits of a double, the \<^verbatim>\<open>repr\<close> of a container) is
  not computed here: every function that prints takes the rendering \<open>fmt\<close> as a
  parameter.
\<close>

fun py_str :: "(pyval \<Rightarrow> string) \<Rightarrow> pyval \<Rightarrow> string" where
  "py_str fmt (PStr s) = s"
| "py_str fmt v = fmt v"

fun percent_s :: "(pyval \<Rightarrow> string) \<Rightarrow> string \<Rightarrow> pyval \<Rightarrow> py_error + string" where
  \<comment> \<open>\<^verbatim>\<open>"<prefix>%s" % v\<close>: a tuple on the right is the argument list and must hold
      exactly one item; any other value is the one argument\<close>
  "percent_s fmt prefix (PTuple [a]) = Inr (prefix @ py_str fmt a)"
| "percent_s fmt prefix (PTuple xs) = Inl TypeError"
| "percent_s fmt prefix v = Inr (prefix @ py_str fmt v)"

fun join_strs :: "string \<Rightarrow> pyval list \<Rightarrow> py_error + string" where
  \<comment> \<open>\<^verbatim>\<open>sep.join(items)\<close>: every item must be a string\<close>
  "join_strs sep [] = Inr []"
| "join_strs sep [PStr s] = Inr s"
| "join_strs sep (PStr s # x # xs) =
     (case join_strs sep (x # xs) of Inl e \<Rightarrow> Inl e | Inr r \<Rightarrow> Inr (s @ sep @ r))"
| "join_strs sep (v # xs) = Inl TypeError"

section \<open>DisplayMode\<close>

text \<open>
  \<^verbatim>\<open>class DisplayMode\<close>: the constructor stores the record it is given; every field is
  read from it by position when its accessor is called.
\<close>

record display_mode =
  mode_info :: pyval

definition DisplayMode :: "pyval \<Rightarrow> display_mode" where
  "DisplayMode mi = \<lparr>mode_info = mi\<rparr>"

definition mode_id :: "display_mode \<Rightarrow> py_error + pyval" where
  "mode_id m = py_getitem (mode_info m) (PInt 0)"

definition width :: "display_mode \<Rightarrow> py_error + pyval" where
  "width m = py_getitem (mode_info m) (PInt 1)"

definition height :: "display_mode \<Rightarrow> py_error + pyval" where
  "height m = py_getitem (mode_info m) (PInt 2)"

definition frequency :: "display_mode \<Rightarrow> py_error + pyval" where
  "frequency m = py_getitem (mode_info m) (PInt 3)"

definition scale :: "display_mode \<Rightarrow> py_error + pyval" where
  "scale m = py_getitem (mode_info m) (PInt 4)"

definition supported_scale :: "display_mode \<Rightarrow> py_error + pyval" where
  "supported_scale m = py_getitem (mode_info m) (PInt 5)"

definition properties :: "display_mode \<Rightarrow> py_error + pyval" where
  "properties m = py_getitem (mode_info m) (PInt 6)"

definition is_current :: "display_mode \<Rightarrow> py_error + bool" where
  "is_current m =
     (case properties m of Inl e \<Rightarrow> Inl e | Inr props \<Rightarrow> str_in ''is-current'' props)"

definition DisplayMode_str :: "(pyval \<Rightarrow> string) \<Rightarrow> display_mode \<Rightarrow> py_error + string" where
  \<comment> \<open>\<^verbatim>\<open>__str__\<close>: \<^verbatim>\<open>"%sx%s@%s" % (self.width, self.height, self.frequency)\<close>\<close>
  "DisplayMode_str fmt m =
     (case width m of Inl e \<Rightarrow> Inl e | Inr w \<Rightarrow>
      case height m of Inl e \<Rightarrow> Inl e | Inr h \<Rightarrow>
      case frequency m of Inl e \<Rightarrow> Inl e | Inr f \<Rightarrow>
        Inr (py_str fmt w @ ''x'' @ py_str fmt h @ ''@'' @ py_str fmt f))"

section \<open>The display service and the running program\<close>

text \<open>
  The three methods of \<^verbatim>\<open>org.gnome.Mutter.DisplayConfig\<close> that the client calls.
  \<open>ApplyMonitorsConfig\<close> carries its four arguments: serial, method, logical monitors,
  properties.
\<close>

datatype dbus_method =
    GetResources
  | GetCurrentState
  | ApplyMonitorsConfig pyval pyval pyval pyval

text \<open>
  The service is outside the program: it is a parameter \<open>srv\<close>, a function from its own
  state and a call to a reply (or a \<open>DBusException\<close>) and its next state. Its state
  type \<open>'s\<close> is arbitrary, so a service may answer each call differently, as one does
  whose hardware changes between two calls. Opening the session bus and building the
  proxy (\<^verbatim>\<open>dbus.SessionBus()\<close>, \<^verbatim>\<open>get_object\<close>, \<^verbatim>\<open>dbus.Interface\<close>) are not modelled; the
  attribute \<^verbatim>\<open>self.interface\<close> is the parameter \<open>srv\<close>.
\<close>

type_synonym 's service = "'s \<Rightarrow> dbus_method \<Rightarrow> (py_error + pyval) \<times> 's"

record 's world =
  svc :: 's  \<comment> \<open>the state of the display service\<close>
  calls :: "dbus_method list"  \<comment> \<open>every method call sent to the service, oldest first\<close>
  stdout :: "string list"  \<comment> \<open>the lines printed, oldest first\<close>

text \<open>The attributes \<^verbatim>\<open>__init__\<close> gives a \<^verbatim>\<open>DisplayConfig\<close> object.\<close>

record display_config =
  resources :: pyval
  current_state :: pyval
  config_serial :: pyval

text \<open>A method runs on its object and the world, and may change either.\<close>

type_synonym 's state = "display_config \<times> 's world"

text \<open>
  A piece of program takes a state and ends in a value or in a raised exception,
  together with the state it leaves: what was done before an exception stays done.
\<close>

type_synonym ('a, 'w) prog = "'w \<Rightarrow> (py_error + 'a) \<times> 'w"

definition ret :: "'a \<Rightarrow> ('a, 'w) prog" where
  "ret a w = (Inr a, w)"

definition lift :: "py_error + 'a \<Rightarrow> ('a, 'w) prog" where
  \<comment> \<open>an expression without effects that may raise\<close>
  "lift r w = (r, w)"

definition seq :: "('a, 'w) prog \<Rightarrow> ('a \<Rightarrow> ('b, 'w) prog) \<Rightarrow> ('b, 'w) prog" where
  \<comment> \<open>one statement after another; an exception skips the rest\<close>
  "seq m f w = (case m w of (Inl e, w') \<Rightarrow> (Inl e, w') | (Inr a, w') \<Rightarrow> f a w')"

fun for_each :: "('a \<Rightarrow> (unit, 'w) prog) \<Rightarrow> 'a list \<Rightarrow> (unit, 'w) prog" where
  \<comment> \<open>\<^verbatim>\<open>for x in xs: body\<close>\<close>
  "for_each body [] w = (Inr (), w)"
| "for_each body (x # xs) w =
     (case body x w of (Inl e, w') \<Rightarrow> (Inl e, w') | (Inr u, w') \<Rightarrow> for_each body xs w')"

fun comprehension :: "('a \<Rightarrow> py_error + 'b) \<Rightarrow> 'a list \<Rightarrow> py_error + 'b list" where
  \<comment> \<open>\<^verbatim>\<open>[f(x) for x in xs]\<close>, stopping at the first item on which \<open>f\<close> raises\<close>
  "comprehension f [] = Inr []"
| "comprehension f (x # xs) =
     (case f x of Inl e \<Rightarrow> Inl e
      | Inr y \<Rightarrow> (case comprehension f xs of Inl e \<Rightarrow> Inl e | Inr ys \<Rightarrow> Inr (y # ys)))"

fun unpack3 :: "pyval list \<Rightarrow> py_error + pyval \<times> pyval \<times> pyval" where
  \<comment> \<open>\<^verbatim>\<open>a, b, c = items\<close>\<close>
  "unpack3 [a, b, c] = Inr (a, b, c)"
| "unpack3 xs = Inl ValueError"

fun unpack4 :: "pyval list \<Rightarrow> py_error + pyval \<times> pyval \<times> pyval \<times> pyval" where
  \<comment> \<open>\<^verbatim>\<open>a, b, c, d = items\<close>\<close>
  "unpack4 [a, b, c, d] = Inr (a, b, c, d)"
| "unpack4 xs = Inl ValueError"

definition self_attr :: "(display_config \<Rightarrow> 'a) \<Rightarrow> ('a, 's state) prog" where
  \<comment> \<open>\<^verbatim>\<open>self.<attribute>\<close>, read inside a method\<close>
  "self_attr attribute st = (Inr (attribute (fst st)), st)"

definition print_line :: "string \<Rightarrow> (unit, 's state) prog" where
  \<comment> \<open>\<^verbatim>\<open>print(text)\<close>\<close>
  "print_line text st =
     (case st of (self, w) \<Rightarrow> (Inr (), (self, w\<lparr>stdout := stdout w @ [text]\<rparr>)))"

definition proxy_call :: "'s service \<Rightarrow> dbus_method \<Rightarrow> (pyval, 's world) prog" where
  \<comment> \<open>\<^verbatim>\<open>self.interface.<Method>(...)\<close>: the call is sent, the service moves on and answers;
      an argument the bus cannot marshal is a call the service answers with an exception\<close>
  "proxy_call srv c w =
     (case srv (svc w) c of (r, s') \<Rightarrow> (r, w\<lparr>svc := s', calls := calls w @ [c]\<rparr>))"

section \<open>DisplayConfig\<close>

definition VERIFY_METHOD :: int where "VERIFY_METHOD = 0"
definition TEMPORARY_METHOD :: int where "TEMPORARY_METHOD = 1"
definition PERSISTENT_METHOD :: int where "PERSISTENT_METHOD = 2"

definition DisplayConfig_init :: "'s service \<Rightarrow> 's world \<Rightarrow> (py_error + display_config) \<times> 's world" where
  \<comment> \<open>\<^verbatim>\<open>__init__\<close>: the new object, or the exception that ended its construction\<close>
  "DisplayConfig_init srv w =
     (case proxy_call srv GetResources w of
        (Inl e, w1) \<Rightarrow> (Inl e, w1)
      | (Inr res, w1) \<Rightarrow>
          (case proxy_call srv GetCurrentState w1 of
             (Inl e, w2) \<Rightarrow> (Inl e, w2)
           | (Inr cur, w2) \<Rightarrow>
               (case py_getitem cur (PInt 0) of
                  Inl e \<Rightarrow> (Inl e, w2)
                | Inr s \<Rightarrow>
                    (Inr \<lparr>resources = res, current_state = cur, config_serial = s\<rparr>, w2))))"

definition serial :: "display_config \<Rightarrow> py_error + pyval" where
  "serial self = py_getitem (resources self) (PInt 0)"

definition crtcs :: "display_config \<Rightarrow> py_error + pyval" where
  "crtcs self = py_getitem (resources self) (PInt 1)"

definition outputs :: "display_config \<Rightarrow> py_error + pyval" where
  "outputs self = py_getitem (resources self) (PInt 2)"

definition modes :: "display_config \<Rightarrow> py_error + pyval" where
  "modes self = py_getitem (resources self) (PInt 3)"

definition max_screen_width :: "display_config \<Rightarrow> py_error + pyval" where
  "max_screen_width self = py_getitem (resources self) (PInt 4)"

definition max_screen_height :: "display_config \<Rightarrow> py_error + pyval" where
  "max_screen_height self = py_getitem (resources self) (PInt 5)"

definition mode_text :: "(pyval \<Rightarrow> string) \<Rightarrow> pyval \<Rightarrow> py_error + pyval" where
  \<comment> \<open>\<^verbatim>\<open>str(mode[0])\<close>\<close>
  "mode_text fmt mode =
     (case py_getitem mode (PInt 0) of Inl e \<Rightarrow> Inl e | Inr v \<Rightarrow> Inr (PStr (py_str fmt v)))"

definition available_modes :: "(pyval \<Rightarrow> string) \<Rightarrow> pyval \<Rightarrow> (pyval, 's state) prog" where
  "available_modes fmt monitor =
     seq (lift (py_getitem monitor (PInt 1))) (\<lambda>modes'.
     seq (lift (py_iter modes')) (\<lambda>items.
     seq (lift (comprehension (mode_text fmt) items)) (\<lambda>mode_list.
     ret (PList mode_list))))"

definition print_current_mode :: "(pyval \<Rightarrow> string) \<Rightarrow> pyval \<Rightarrow> (unit, 's state) prog" where
  \<comment> \<open>the body of the loop over \<^verbatim>\<open>modes\<close> in \<^verbatim>\<open>print_monitor_config\<close>;
      \<^verbatim>\<open>print("Current: ", str(d_mode))\<close> puts a space between its two arguments\<close>
  "print_current_mode fmt mode =
     (let d_mode = DisplayMode mode in
      seq (lift (is_current d_mode)) (\<lambda>cur.
        if cur then seq (lift (DisplayMode_str fmt d_mode)) (\<lambda>s.
                      print_line (''Current: '' @ '' '' @ s))
        else ret ()))"

definition print_monitor_config :: "(pyval \<Rightarrow> string) \<Rightarrow> pyval \<Rightarrow> (pyval, 's state) prog" where
  "print_monitor_config fmt monitor =
     seq (print_line ''Print Monitor Config'') (\<lambda>u.
     seq (lift (case py_iter monitor of Inl e \<Rightarrow> Inl e | Inr xs \<Rightarrow> unpack3 xs))
       (\<lambda>(monitor_info, modes', props).
     seq (lift (case py_iter monitor_info of Inl e \<Rightarrow> Inl e | Inr xs \<Rightarrow> join_strs '' '' xs))
       (\<lambda>joined.
     seq (print_line joined) (\<lambda>u.
     seq (lift (py_iter modes')) (\<lambda>items.
     seq (for_each (print_current_mode fmt) items) (\<lambda>u.
     seq (print_line (py_str fmt props)) (\<lambda>u.
     ret PNone)))))))"

definition print_monitor :: "(pyval \<Rightarrow> string) \<Rightarrow> pyval \<Rightarrow> (unit, 's state) prog" where
  \<comment> \<open>the body of the loop over \<^verbatim>\<open>monitors\<close> in \<^verbatim>\<open>print_current_state\<close>\<close>
  "print_monitor fmt monitor =
     seq (print_line ''Available Monitor Modes'') (\<lambda>u.
     seq (available_modes fmt monitor) (\<lambda>mode_list.
     seq (print_line (py_str fmt mode_list)) (\<lambda>u.
     seq (print_monitor_config fmt monitor) (\<lambda>r.
     ret ()))))"

definition print_prop :: "(pyval \<Rightarrow> string) \<Rightarrow> pyval \<Rightarrow> pyval \<Rightarrow> (unit, 's state) prog" where
  \<comment> \<open>the body of the loop over \<^verbatim>\<open>properties\<close>:
      \<^verbatim>\<open>print("%s: %s" % (prop, properties[prop]))\<close>\<close>
  "print_prop fmt properties' prop =
     seq (lift (py_getitem properties' prop)) (\<lambda>v.
     print_line (py_str fmt prop @ '': '' @ py_str fmt v))"

definition print_current_state :: "(pyval \<Rightarrow> string) \<Rightarrow> (pyval, 's state) prog" where
  "print_current_state fmt =
     seq (self_attr current_state) (\<lambda>reply.
     seq (lift (case py_iter reply of Inl e \<Rightarrow> Inl e | Inr xs \<Rightarrow> unpack4 xs))
       (\<lambda>(serial', monitors, logical_monitors, properties').
     seq (lift (percent_s fmt ''Serial: '' serial')) (\<lambda>text.
     seq (print_line text) (\<lambda>u.
     seq (lift (py_len monitors)) (\<lambda>n.
     seq (print_line (''Monitors num:'' @ '' '' @ py_str fmt n)) (\<lambda>u.
     seq (lift (py_iter monitors)) (\<lambda>ms.
     seq (for_each (print_monitor fmt) ms) (\<lambda>u.
     seq (print_line ''Logical monitors'') (\<lambda>u.
     seq (lift (py_iter logical_monitors)) (\<lambda>lms.
     seq (for_each (\<lambda>monitor. print_line (py_str fmt monitor)) lms) (\<lambda>u.
     seq (print_line ''PROPS'') (\<lambda>u.
     seq (lift (py_iter properties')) (\<lambda>props.
     seq (for_each (print_prop fmt properties') props) (\<lambda>u.
     ret PNone))))))))))))))"

definition apply_monitors_config :: "'s service \<Rightarrow> (pyval, 's state) prog" where
  "apply_monitors_config srv st =
     (let scale' = PDouble double_1_0;
          transform = PInt 0;
          is_primary = PBool True;
          monitors = PList [
            PList [PInt 0, PInt 0, scale', transform, is_primary,
                   PList [PList [PStr ''DP-1'', PStr ''1920x1200@59.950172424316406'',
                                 PDict []]]]]
      in case st of (self, w) \<Rightarrow>
           (case proxy_call srv
                   (ApplyMonitorsConfig (config_serial self) (PInt 1) monitors (PDict [])) w of
              (Inl e, w') \<Rightarrow> (Inl e, (self, w'))
            | (Inr r, w') \<Rightarrow> (Inr PNone, (self, w'))))"

text \<open>
  The three builders have the same body: each binds the local name \<^verbatim>\<open>monitors\<close> to a
  list of one record made of its six arguments and falls off the end, so the call
  returns \<^verbatim>\<open>None\<close>. For each builder the value bound to the local is a definition of
  its own. (A local or parameter whose name is also the name of an accessor above is
  written with a prime: \<open>scale'\<close>, \<open>modes'\<close>, \<open>serial'\<close>, \<open>properties'\<close>.)
\<close>

definition single_mode_monitors ::
  "pyval \<Rightarrow> pyval \<Rightarrow> pyval \<Rightarrow> pyval \<Rightarrow> pyval \<Rightarrow> pyval \<Rightarrow> pyval" where
  "single_mode_monitors x_position y_position scale' transform is_primary monitor_list =
     PList [PList [x_position, y_position, scale', transform, is_primary, monitor_list]]"

definition single_mode ::
  "pyval \<Rightarrow> pyval \<Rightarrow> pyval \<Rightarrow> pyval \<Rightarrow> pyval \<Rightarrow> pyval \<Rightarrow> (pyval, 's state) prog" where
  "single_mode x_position y_position scale' transform is_primary monitor_list =
     (let monitors =
            single_mode_monitors x_position y_position scale' transform is_primary monitor_list
      in ret PNone)"

definition extand_mode_monitors ::
  "pyval \<Rightarrow> pyval \<Rightarrow> pyval \<Rightarrow> pyval \<Rightarrow> pyval \<Rightarrow> pyval \<Rightarrow> pyval" where
  "extand_mode_monitors x_position y_position scale' transform is_primary monitor_list =
     PList [PList [x_position, y_position, scale', transform, is_primary, monitor_list]]"

definition extand_mode ::
  "pyval \<Rightarrow> pyval \<Rightarrow> pyval \<Rightarrow> pyval \<Rightarrow> pyval \<Rightarrow> pyval \<Rightarrow> (pyval, 's state) prog" where
  "extand_mode x_position y_position scale' transform is_primary monitor_list =
     (let monitors =
            extand_mode_monitors x_position y_position scale' transform is_primary monitor_list
      in ret PNone)"

definition clone_mode_monitors ::
  "pyval \<Rightarrow> pyval \<Rightarrow> pyval \<Rightarrow> pyval \<Rightarrow> pyval \<Rightarrow> pyval \<Rightarrow> pyval" where
  "clone_mode_monitors x_position y_position scale' transform is_primary monitor_list =
     PList [PList [x_position, y_position, scale', transform, is_primary, monitor_list]]"

definition clone_mode ::
  "pyval \<Rightarrow> pyval \<Rightarrow> pyval \<Rightarrow> pyval \<Rightarrow> pyval \<Rightarrow> pyval \<Rightarrow> (pyval, 's state) prog" where
  "clone_mode x_position y_position scale' transform is_primary monitor_list =
     (let monitors =
            clone_mode_monitors x_position y_position scale' transform is_primary monitor_list
      in ret PNone)"

section \<open>The record layout of the apply call\<close>

text \<open>
  The layout the service documents for the third argument of \<open>ApplyMonitorsConfig\<close>:
  each logical monitor is \<^verbatim>\<open>(x, y, scale, transform, primary, [(connector_name, mode_id,
  properties)])\<close>. The two predicates follow that sentence of the specification, not
  the code; a Python list and a tuple both marshal to the struct.
\<close>

fun as_seq :: "pyval \<Rightarrow> pyval list option" where
  "as_seq (PList xs) = Some xs"
| "as_seq (PTuple xs) = Some xs"
| "as_seq v = None"

definition assignment_shaped :: "pyval \<Rightarrow> bool" where
  "assignment_shaped v =
     (case as_seq v of
        Some [PStr connector_name, PStr mode_ident, PDict props] \<Rightarrow> True
      | _ \<Rightarrow> False)"

definition placement_shaped :: "pyval \<Rightarrow> bool" where
  "placement_shaped v =
     (case as_seq v of
        Some [PInt x, PInt y, PDouble sc, PInt tr, PBool primary, assigned] \<Rightarrow>
          (case as_seq assigned of
             Some items \<Rightarrow> list_all assignment_shaped items
           | None \<Rightarrow> False)
      | _ \<Rightarrow> False)"

section \<open>Sample data\<close>

text \<open>
  Concrete values on which the theorems below are instantiated: two monitors with one
  mode each and no mode in common, and a service whose serial moves on with every call
  it answers, as it does when the hardware changes between two calls.
\<close>

definition sample_fmt :: "pyval \<Rightarrow> string" where
  "sample_fmt v = ''?''"

definition double_2_0 :: "64 word" where
  "double_2_0 = 0x4000000000000000"

definition mode_1920 :: pyval where
  "mode_1920 =
     PTuple [PStr ''1920x1200@59.950172424316406'', PInt 1920, PInt 1200,
             PDouble 0x404DF99F40000000, PDouble double_1_0,
             PList [PDouble double_1_0, PDouble double_2_0],
             PDict [(''is-current'', PBool True), (''is-preferred'', PBool True)]]"

definition mode_1280 :: pyval where
  "mode_1280 =
     PTuple [PStr ''1280x720@60'', PInt 1280, PInt 720,
             PDouble 0x404E000000000000, PDouble double_1_0,
             PList [PDouble double_1_0], PDict []]"

definition monitor_DP1 :: pyval where
  "monitor_DP1 =
     PTuple [PTuple [PStr ''DP-1'', PStr ''DEL'', PStr ''U2415'', PStr ''0x01''],
             PList [mode_1920], PDict []]"

definition monitor_HDMI1 :: pyval where
  "monitor_HDMI1 =
     PTuple [PTuple [PStr ''HDMI-1'', PStr ''GSM'', PStr ''W2261'', PStr ''0x02''],
             PList [mode_1280], PDict []]"

definition monitor_eDP1 :: pyval where
  "monitor_eDP1 =
     PTuple [PTuple [PStr ''eDP-1'', PStr ''BOE'', PStr ''0x07c9'', PStr ''0x00''],
             PList [mode_1920, mode_1280], PDict []]"

definition sample_resources :: "nat \<Rightarrow> pyval" where
  "sample_resources n = PTuple [PInt (int n), PList [], PList [], PList [], PInt 8192, PInt 8192]"

definition sample_current_state :: "nat \<Rightarrow> pyval" where
  "sample_current_state n =
     PTuple [PInt (int n), PList [monitor_DP1, monitor_HDMI1],
             PList [PTuple [PInt 0, PInt 0, PDouble double_1_0, PInt 0, PBool True,
                            PList [PTuple [PStr ''DP-1'', PStr ''DEL'', PStr ''U2415'',
                                           PStr ''0x01'']],
                            PDict []]],
             PDict [(''layout-mode'', PInt 1)]]"

fun restless_service :: "nat service" where
  "restless_service n GetResources = (Inr (sample_resources n), Suc n)"
| "restless_service n GetCurrentState = (Inr (sample_current_state n), Suc n)"
| "restless_service n (ApplyMonitorsConfig ser meth lms props) =
     (if ser = PInt (int n) then (Inr PNone, Suc n)
      else (Inl (DBusException ''org.freedesktop.DBus.Error.AccessDenied''), n))"

definition sample_world :: "nat world" where
  "sample_world = \<lparr>svc = 5, calls = [], stdout = []\<rparr>"

definition sample_client :: display_config where
  "sample_client =
     \<lparr>resources = sample_resources 5, current_state = sample_current_state 6,
      config_serial = PInt 6\<rparr>"

definition output_DP1 :: pyval where
  "output_DP1 = PList [PStr ''DP-1'', PStr ''1920x1200@59.950172424316406'', PDict []]"

definition output_HDMI1 :: pyval where
  "output_HDMI1 = PList [PStr ''HDMI-1'', PStr ''1280x720@60'', PDict []]"

definition output_A :: pyval where
  "output_A = PList [PStr ''A'', PStr ''1920x1200@59.950172424316406'', PDict []]"

definition output_B :: pyval where
  "output_B = PList [PStr ''B'', PStr ''1920x1200@59.950172424316406'', PDict []]"

definition short_record :: pyval where
  "short_record = PTuple [PStr ''1920x1200@59.950172424316406'', PInt 1920, PInt 1200]"

section \<open>Methods that leave the object alone\<close>

definition keeps_self :: "('a, 's state) prog \<Rightarrow> bool" where
  \<comment> \<open>however the piece of program ends, the object holds what it held before\<close>
  "keeps_self m = (\<forall>st. fst (snd (m st)) = fst st)"

section \<open>Unfolding the sample data\<close>

lemmas sample_defs =
  sample_world_def sample_client_def sample_resources_def sample_current_state_def

lemmas sample_monitor_defs =
  monitor_DP1_def monitor_HDMI1_def monitor_eDP1_def mode_1920_def mode_1280_def

section \<open>Decoding a mode record\<close>

lemma tuple_field:
  "py_getitem (PTuple fs) (PInt (int k)) =
     (if k < length fs then Inr (fs ! k) else Inl IndexError)"
  by (simp add: seq_index_def)

text \<open>
  C6, as the code has it. Decoding cannot fail and checks nothing: \<^verbatim>\<open>DisplayMode(r)\<close>
  holds the record \<open>r\<close> as given, whatever its arity, and resolves no id. A missing field
  shows only when its accessor is called: on a struct of \<open>n\<close> fields the accessor of
  position \<open>k\<close> (\<^verbatim>\<open>mode_id\<close> 0, \<^verbatim>\<open>width\<close> 1, \<^verbatim>\<open>height\<close> 2, \<^verbatim>\<open>frequency\<close> 3, \<^verbatim>\<open>scale\<close> 4,
  \<^verbatim>\<open>supported_scale\<close> 5, \<^verbatim>\<open>properties\<close> 6) returns field \<open>k\<close> when \<open>k < n\<close> and raises
  \<^verbatim>\<open>IndexError\<close> otherwise.
\<close>

theorem DisplayMode_fields_by_position:
  "mode_info (DisplayMode r) = r \<and>
   mode_id (DisplayMode (PTuple fs)) =
     (if 0 < length fs then Inr (fs ! 0) else Inl IndexError) \<and>
   width (DisplayMode (PTuple fs)) =
     (if 1 < length fs then Inr (fs ! 1) else Inl IndexError) \<and>
   height (DisplayMode (PTuple fs)) =
     (if 2 < length fs then Inr (fs ! 2) else Inl IndexError) \<and>
   frequency (DisplayMode (PTuple fs)) =
     (if 3 < length fs then Inr (fs ! 3) else Inl IndexError) \<and>
   scale (DisplayMode (PTuple fs)) =
     (if 4 < length fs then Inr (fs ! 4) else Inl IndexError) \<and>
   supported_scale (DisplayMode (PTuple fs)) =
     (if 5 < length fs then Inr (fs ! 5) else Inl IndexError) \<and>
   properties (DisplayMode (PTuple fs)) =
     (if 6 < length fs then Inr (fs ! 6) else Inl IndexError)"
  using tuple_field [of fs 0] tuple_field [of fs 1] tuple_field [of fs 2]
    tuple_field [of fs 3] tuple_field [of fs 4] tuple_field [of fs 5] tuple_field [of fs 6]
  by (simp add: DisplayMode_def mode_id_def width_def height_def frequency_def scale_def
      supported_scale_def properties_def)

text \<open>
  C6 as stated fails: a record of three fields, where the layout has seven, is decoded
  without any error. The entity answers \<^verbatim>\<open>mode_id()\<close>, \<^verbatim>\<open>width\<close> and \<^verbatim>\<open>height\<close>, and
  raises \<^verbatim>\<open>IndexError\<close> only when \<^verbatim>\<open>frequency\<close> or \<^verbatim>\<open>is_current()\<close> is asked for.
\<close>

theorem short_record_counterexample:
  "mode_info (DisplayMode short_record) = short_record \<and>
   mode_id (DisplayMode short_record) = Inr (PStr ''1920x1200@59.950172424316406'') \<and>
   width (DisplayMode short_record) = Inr (PInt 1920) \<and>
   height (DisplayMode short_record) = Inr (PInt 1200) \<and>
   frequency (DisplayMode short_record) = Inl IndexError \<and>
   is_current (DisplayMode short_record) = Inl IndexError"
  by (simp add: DisplayMode_def short_record_def mode_id_def width_def height_def
      frequency_def is_current_def properties_def seq_index_def)

section \<open>Fetching\<close>

text \<open>
  C4, as the code has it. A fetch is the construction of a \<^verbatim>\<open>DisplayConfig\<close>. When the
  service answers both reads and the current-state reply has a first item, the fetch
  sends exactly the two calls \<open>GetResources\<close> and \<open>GetCurrentState\<close>, in that order, keeps
  both replies as they are, and takes \<^verbatim>\<open>config_serial\<close> from the current-state reply.
  The serial of the resources reply does not occur in the hypotheses: the two serials
  are not compared, nothing is retried, and there is no \<^verbatim>\<open>InconsistentSnapshot\<close>.
\<close>

theorem init_two_reads_no_retry:
  assumes "srv (svc w) GetResources = (Inr res, s1)"
    and "srv s1 GetCurrentState = (Inr cur, s2)"
    and "py_getitem cur (PInt 0) = Inr ser"
  shows "DisplayConfig_init srv w =
           (Inr \<lparr>resources = res, current_state = cur, config_serial = ser\<rparr>,
            w\<lparr>svc := s2, calls := calls w @ [GetResources, GetCurrentState]\<rparr>)"
  using assms by (simp add: DisplayConfig_init_def proxy_call_def)

theorem init_two_reads_no_retry_witness:
  "restless_service (svc sample_world) GetResources = (Inr (sample_resources 5), 6) \<and>
   restless_service 6 GetCurrentState = (Inr (sample_current_state 6), 7) \<and>
   py_getitem (sample_current_state 6) (PInt 0) = Inr (PInt 6) \<and>
   DisplayConfig_init restless_service sample_world =
     (Inr sample_client,
      sample_world\<lparr>svc := 7, calls := calls sample_world @ [GetResources, GetCurrentState]\<rparr>)"
proof -
  have r1: "restless_service (svc sample_world) GetResources = (Inr (sample_resources 5), 6)"
    by (simp add: sample_world_def)
  have r2: "restless_service 6 GetCurrentState = (Inr (sample_current_state 6), 7)"
    by simp
  have r3: "py_getitem (sample_current_state 6) (PInt 0) = Inr (PInt 6)"
    by (simp add: sample_current_state_def seq_index_def)
  show ?thesis
    using init_two_reads_no_retry [OF r1 r2 r3] r1 r2 r3
    by (simp add: sample_client_def)
qed

text \<open>
  C4 as stated fails: the sample service answers the first read with serial 5 and the
  second with serial 6. The fetch ends with an object after two calls; it has not
  retried and has not failed. The property \<^verbatim>\<open>serial\<close> of that object gives 5, its
  \<^verbatim>\<open>config_serial\<close> is 6.
\<close>

theorem diverging_serials_counterexample:
  "serial sample_client = Inr (PInt 5) \<and>
   py_getitem (current_state sample_client) (PInt 0) = Inr (PInt 6) \<and>
   DisplayConfig_init restless_service sample_world =
     (Inr sample_client, sample_world\<lparr>svc := 7, calls := [GetResources, GetCurrentState]\<rparr>)"
  by (simp add: DisplayConfig_init_def proxy_call_def serial_def sample_defs seq_index_def)

section \<open>Listing the modes of a monitor\<close>

lemma comprehension_mode_text:
  assumes "list_all2 (\<lambda>m i. mode_id (DisplayMode m) = Inr (PStr i)) items ids"
  shows "comprehension (mode_text fmt) items = Inr (map PStr ids)"
  using assms
proof (induction items ids rule: list_all2_induct)
  case Nil
  show ?case by simp
next
  case (Cons m i items ids)
  then show ?case
    by (simp add: mode_text_def mode_id_def DisplayMode_def)
qed

text \<open>
  C8. Take a monitor record whose second field \<^verbatim>\<open>monitor[1]\<close> is the list \<open>items\<close> of its
  mode records, and let \<open>ids\<close> be the string ids of those modes as \<^verbatim>\<open>DisplayMode\<close> reads
  them, mode by mode. Then \<^verbatim>\<open>available_modes\<close> returns exactly \<open>ids\<close>: one id for each
  mode, in the order of the record, none dropped and none added; the state is not
  touched.
\<close>

theorem available_modes_one_id_per_mode:
  assumes "py_getitem monitor (PInt 1) = Inr ms"
    and "py_iter ms = Inr items"
    and "list_all2 (\<lambda>m i. mode_id (DisplayMode m) = Inr (PStr i)) items ids"
  shows "available_modes fmt monitor st = (Inr (PList (map PStr ids)), st) \<and>
         length ids = length items"
  using assms comprehension_mode_text [OF assms(3), of fmt]
  by (simp add: available_modes_def seq_def lift_def ret_def list_all2_lengthD)

theorem available_modes_one_id_per_mode_witness:
  "py_getitem monitor_eDP1 (PInt 1) = Inr (PList [mode_1920, mode_1280]) \<and>
   py_iter (PList [mode_1920, mode_1280]) = Inr [mode_1920, mode_1280] \<and>
   list_all2 (\<lambda>m i. mode_id (DisplayMode m) = Inr (PStr i)) [mode_1920, mode_1280]
     [''1920x1200@59.950172424316406'', ''1280x720@60''] \<and>
   available_modes sample_fmt monitor_eDP1 (sample_client, sample_world) =
     (Inr (PList [PStr ''1920x1200@59.950172424316406'', PStr ''1280x720@60'']),
      (sample_client, sample_world))"
proof -
  have h1: "py_getitem monitor_eDP1 (PInt 1) = Inr (PList [mode_1920, mode_1280])"
    by (simp add: monitor_eDP1_def seq_index_def)
  have h2: "py_iter (PList [mode_1920, mode_1280]) = Inr [mode_1920, mode_1280]"
    by simp
  have h3: "list_all2 (\<lambda>m i. mode_id (DisplayMode m) = Inr (PStr i)) [mode_1920, mode_1280]
     [''1920x1200@59.950172424316406'', ''1280x720@60'']"
    by (simp add: mode_id_def DisplayMode_def mode_1920_def mode_1280_def seq_index_def)
  show ?thesis
    using available_modes_one_id_per_mode
      [OF h1 h2 h3, of sample_fmt "(sample_client, sample_world)"] h1 h2 h3
    by simp
qed

section \<open>The builders\<close>

text \<open>
  C1, as the code has it. \<^verbatim>\<open>single_mode\<close> builds a list of exactly one placement record,
  and the fields of that record are the six arguments of the call as they were given:
  x, y, scale, transform, primary flag and list of outputs. It is the record at (0, 0)
  with transform none and primary true only when the caller passes those values. The
  list is bound to a local name; the call returns \<^verbatim>\<open>None\<close> and changes nothing.
\<close>

theorem single_mode_builds_given_record:
  "py_len (single_mode_monitors x y sc tr pr ml) = Inr (PInt 1) \<and>
   py_getitem (single_mode_monitors x y sc tr pr ml) (PInt 0) =
     Inr (PList [x, y, sc, tr, pr, ml]) \<and>
   single_mode x y sc tr pr ml st = (Inr PNone, st)"
  by (simp add: single_mode_monitors_def single_mode_def ret_def seq_index_def)

text \<open>
  C1 as stated fails: called over the one output DP-1 with position (100, 50), scale
  2.0, transform 1 and primary false, \<^verbatim>\<open>single_mode\<close> builds the record with just these
  values, not the record at (0, 0) with scale 1.0, transform none and primary true; and
  what the call returns is \<^verbatim>\<open>None\<close>.
\<close>

theorem single_mode_counterexample:
  "single_mode_monitors (PInt 100) (PInt 50) (PDouble double_2_0) (PInt 1) (PBool False)
      (PList [output_DP1]) =
     PList [PList [PInt 100, PInt 50, PDouble double_2_0, PInt 1, PBool False,
                   PList [output_DP1]]] \<and>
   single_mode_monitors (PInt 100) (PInt 50) (PDouble double_2_0) (PInt 1) (PBool False)
      (PList [output_DP1]) \<noteq>
     PList [PList [PInt 0, PInt 0, PDouble double_1_0, PInt 0, PBool True,
                   PList [output_DP1]]] \<and>
   fst (single_mode (PInt 100) (PInt 50) (PDouble double_2_0) (PInt 1) (PBool False)
          (PList [output_DP1]) (sample_client, sample_world)) = Inr PNone"
  by (simp add: single_mode_monitors_def single_mode_def ret_def)

text \<open>
  C2, as the code has it. \<^verbatim>\<open>extand_mode\<close> builds a list of exactly one placement record,
  whatever the number of outputs: the record carries the x, y, scale, transform and
  primary flag of the call and the whole list of outputs. No offset is computed from a
  width or a scale. The call returns \<^verbatim>\<open>None\<close> and changes nothing.
\<close>

theorem extand_mode_builds_one_record:
  "py_len (extand_mode_monitors x y sc tr pr ml) = Inr (PInt 1) \<and>
   py_getitem (extand_mode_monitors x y sc tr pr ml) (PInt 0) =
     Inr (PList [x, y, sc, tr, pr, ml]) \<and>
   extand_mode x y sc tr pr ml st = (Inr PNone, st)"
  by (simp add: extand_mode_monitors_def extand_mode_def ret_def seq_index_def)

text \<open>
  C2 as stated fails on its own example: for the outputs A then B the list built has
  one record, at (0, 0), holding both outputs. It is not the list of A at (0, 0) and B
  at (1920, 0).
\<close>

theorem extand_mode_counterexample:
  "extand_mode_monitors (PInt 0) (PInt 0) (PDouble double_1_0) (PInt 0) (PBool True)
      (PList [output_A, output_B]) =
     PList [PList [PInt 0, PInt 0, PDouble double_1_0, PInt 0, PBool True,
                   PList [output_A, output_B]]] \<and>
   py_len (extand_mode_monitors (PInt 0) (PInt 0) (PDouble double_1_0) (PInt 0) (PBool True)
      (PList [output_A, output_B])) = Inr (PInt 1) \<and>
   extand_mode_monitors (PInt 0) (PInt 0) (PDouble double_1_0) (PInt 0) (PBool True)
      (PList [output_A, output_B]) \<noteq>
     PList [PList [PInt 0, PInt 0, PDouble double_1_0, PInt 0, PBool True, PList [output_A]],
            PList [PInt 1920, PInt 0, PDouble double_2_0, PInt 0, PBool False,
                   PList [output_B]]] \<and>
   fst (extand_mode (PInt 0) (PInt 0) (PDouble double_1_0) (PInt 0) (PBool True)
          (PList [output_A, output_B]) (sample_client, sample_world)) = Inr PNone"
  by (simp add: extand_mode_monitors_def extand_mode_def ret_def)

text \<open>
  C3, as the code has it. \<^verbatim>\<open>clone_mode\<close> never fails: it looks at no mode and there is
  no \<^verbatim>\<open>NoCommonMode\<close>. It builds a list of exactly one placement record carrying the x, y,
  scale, transform and primary flag of the call and the whole list of outputs, so the
  outputs share one position, scale and transform; each output keeps the mode id the
  caller listed for it. The call returns \<^verbatim>\<open>None\<close> and changes nothing.
\<close>

theorem clone_mode_never_fails:
  "clone_mode x y sc tr pr ml st = (Inr PNone, st) \<and>
   py_len (clone_mode_monitors x y sc tr pr ml) = Inr (PInt 1) \<and>
   py_getitem (clone_mode_monitors x y sc tr pr ml) (PInt 0) =
     Inr (PList [x, y, sc, tr, pr, ml])"
  by (simp add: clone_mode_monitors_def clone_mode_def ret_def seq_index_def)

text \<open>
  C3 as stated fails: in the sample snapshot DP-1 has the one mode 1920x1200 and HDMI-1
  the one mode 1280x720, so no mode is common to both. \<^verbatim>\<open>clone_mode\<close> over the two
  outputs ends normally, and the record it builds lists two different mode ids.
\<close>

theorem clone_mode_counterexample:
  "py_getitem (current_state sample_client) (PInt 1) =
     Inr (PList [monitor_DP1, monitor_HDMI1]) \<and>
   fst (available_modes sample_fmt monitor_DP1 (sample_client, sample_world)) =
     Inr (PList [PStr ''1920x1200@59.950172424316406'']) \<and>
   fst (available_modes sample_fmt monitor_HDMI1 (sample_client, sample_world)) =
     Inr (PList [PStr ''1280x720@60'']) \<and>
   clone_mode (PInt 0) (PInt 0) (PDouble double_1_0) (PInt 0) (PBool True)
      (PList [output_DP1, output_HDMI1]) (sample_client, sample_world) =
     (Inr PNone, (sample_client, sample_world)) \<and>
   clone_mode_monitors (PInt 0) (PInt 0) (PDouble double_1_0) (PInt 0) (PBool True)
      (PList [output_DP1, output_HDMI1]) =
     PList [PList [PInt 0, PInt 0, PDouble double_1_0, PInt 0, PBool True,
                   PList [PList [PStr ''DP-1'', PStr ''1920x1200@59.950172424316406'', PDict []],
                          PList [PStr ''HDMI-1'', PStr ''1280x720@60'', PDict []]]]]"
  by (simp add: clone_mode_monitors_def clone_mode_def ret_def available_modes_def seq_def
      lift_def mode_text_def sample_monitor_defs seq_index_def sample_client_def
      sample_current_state_def output_DP1_def output_HDMI1_def)

text \<open>
  C9. For every input, \<^verbatim>\<open>single_mode\<close>, \<^verbatim>\<open>extand_mode\<close> and \<^verbatim>\<open>clone_mode\<close> return
  \<^verbatim>\<open>None\<close> and leave the whole state as it was: the object, the state of the display
  service, the list of calls sent to it, and the output. The list each of them builds
  is submitted nowhere.
\<close>

theorem builders_submit_nothing:
  "single_mode x y sc tr pr ml st = (Inr PNone, st) \<and>
   extand_mode x y sc tr pr ml st = (Inr PNone, st) \<and>
   clone_mode x y sc tr pr ml st = (Inr PNone, st)"
  by (simp add: single_mode_def extand_mode_def clone_mode_def ret_def)

section \<open>Applying\<close>

text \<open>
  C10. Whatever the object holds and whatever the state of the world,
  \<^verbatim>\<open>apply_monitors_config\<close> sends one call, \<open>ApplyMonitorsConfig\<close>, whose arguments are
  the captured \<^verbatim>\<open>config_serial\<close>, the method 1 (temporary), the one logical monitor
  \<^verbatim>\<open>[0, 0, 1.0, 0, True, [['DP-1', '1920x1200@59.950172424316406', {}]]]\<close> and empty
  properties. Of the fetched state only \<^verbatim>\<open>config_serial\<close> occurs in the call.
\<close>

theorem apply_submits_fixed_configuration:
  "calls (snd (snd (apply_monitors_config srv (self, w)))) =
     calls w @
     [ApplyMonitorsConfig (config_serial self) (PInt 1)
        (PList [PList [PInt 0, PInt 0, PDouble double_1_0, PInt 0, PBool True,
                       PList [PList [PStr ''DP-1'', PStr ''1920x1200@59.950172424316406'',
                                     PDict []]]]])
        (PDict [])]"
  by (simp add: apply_monitors_config_def proxy_call_def Let_def split: prod.splits sum.splits)

lemma init_keeps_current_state_reply:
  assumes "DisplayConfig_init srv w0 = (Inr self, w1)"
  shows "fst (srv (snd (srv (svc w0) GetResources)) GetCurrentState) =
           Inr (current_state self) \<and>
         py_getitem (current_state self) (PInt 0) = Inr (config_serial self)"
proof -
  obtain r1 s1 where a1: "srv (svc w0) GetResources = (r1, s1)"
    by (cases "srv (svc w0) GetResources")
  obtain r2 s2 where a2: "srv s1 GetCurrentState = (r2, s2)"
    by (cases "srv s1 GetCurrentState")
  from assms a1 a2 have
    "r2 = Inr (current_state self) \<and>
     py_getitem (current_state self) (PInt 0) = Inr (config_serial self)"
    by (auto simp: DisplayConfig_init_def proxy_call_def split: sum.splits)
  with a1 a2 show ?thesis by simp
qed

lemma fixed_placement_shaped:
  "list_all placement_shaped
     [PList [PInt 0, PInt 0, PDouble double_1_0, PInt 0, PBool True,
             PList [PList [PStr ''DP-1'', PStr ''1920x1200@59.950172424316406'', PDict []]]]]"
  by (simp add: placement_shaped_def assignment_shaped_def)

lemma apply_call_sent:
  "calls (snd (snd (apply_monitors_config srv (self, w)))) =
     calls w @
     [ApplyMonitorsConfig (config_serial self) (PInt TEMPORARY_METHOD)
        (PList [PList [PInt 0, PInt 0, PDouble double_1_0, PInt 0, PBool True,
                       PList [PList [PStr ''DP-1'', PStr ''1920x1200@59.950172424316406'',
                                     PDict []]]]])
        (PDict [])]"
  by (simp add: apply_monitors_config_def proxy_call_def Let_def TEMPORARY_METHOD_def
      split: prod.splits sum.splits)

text \<open>
  C5. Let \<open>self\<close> be the object a fetch has made. Its \<^verbatim>\<open>config_serial\<close> is the first item
  of the reply the service gave to \<open>GetCurrentState\<close> during that fetch, and in whatever
  world \<^verbatim>\<open>apply_monitors_config\<close> is then run, it sends one call \<open>ApplyMonitorsConfig\<close>
  carrying that serial, a method that is one of the three encodings (0 verify,
  1 temporary, 2 persistent; the one sent is temporary), and a list of logical monitors
  each of the layout \<^verbatim>\<open>(x, y, scale, transform, primary, [(connector_name, mode_id,
  properties)])\<close>.
\<close>

theorem apply_submits_captured_serial:
  assumes "DisplayConfig_init srv w0 = (Inr self, w1)"
  shows "fst (srv (snd (srv (svc w0) GetResources)) GetCurrentState) =
           Inr (current_state self) \<and>
         py_getitem (current_state self) (PInt 0) = Inr (config_serial self) \<and>
         (\<exists>placements.
            calls (snd (snd (apply_monitors_config srv (self, w)))) =
              calls w @ [ApplyMonitorsConfig (config_serial self) (PInt TEMPORARY_METHOD)
                           (PList placements) (PDict [])] \<and>
            list_all placement_shaped placements) \<and>
         VERIFY_METHOD = 0 \<and> TEMPORARY_METHOD = 1 \<and> PERSISTENT_METHOD = 2"
  using init_keeps_current_state_reply [OF assms] apply_call_sent [of srv self w]
    fixed_placement_shaped
  by (simp add: VERIFY_METHOD_def TEMPORARY_METHOD_def PERSISTENT_METHOD_def)

theorem apply_submits_captured_serial_witness:
  "DisplayConfig_init restless_service sample_world =
     (Inr sample_client, sample_world\<lparr>svc := 7, calls := [GetResources, GetCurrentState]\<rparr>) \<and>
   (fst (restless_service (snd (restless_service (svc sample_world) GetResources))
          GetCurrentState) = Inr (current_state sample_client) \<and>
    py_getitem (current_state sample_client) (PInt 0) = Inr (config_serial sample_client) \<and>
    (\<exists>placements.
       calls (snd (snd (apply_monitors_config restless_service
                          (sample_client,
                           sample_world\<lparr>svc := 7, calls := [GetResources, GetCurrentState]\<rparr>)))) =
         calls (sample_world\<lparr>svc := 7, calls := [GetResources, GetCurrentState]\<rparr>) @
           [ApplyMonitorsConfig (config_serial sample_client) (PInt TEMPORARY_METHOD)
              (PList placements) (PDict [])] \<and>
       list_all placement_shaped placements) \<and>
    VERIFY_METHOD = 0 \<and> TEMPORARY_METHOD = 1 \<and> PERSISTENT_METHOD = 2)"
proof -
  have fetched: "DisplayConfig_init restless_service sample_world =
     (Inr sample_client, sample_world\<lparr>svc := 7, calls := [GetResources, GetCurrentState]\<rparr>)"
    by (simp add: DisplayConfig_init_def proxy_call_def sample_defs seq_index_def)
  show ?thesis
    by (rule conjI [OF fetched apply_submits_captured_serial [OF fetched]])
qed

section \<open>What the methods leave unchanged\<close>

lemma keeps_selfI: "(\<And>st. fst (snd (m st)) = fst st) \<Longrightarrow> keeps_self m"
  unfolding keeps_self_def by blast

lemma keeps_selfD: "keeps_self m \<Longrightarrow> fst (snd (m st)) = fst st"
  unfolding keeps_self_def by blast

lemma keeps_ret: "keeps_self (ret a)"
  by (rule keeps_selfI) (simp add: ret_def)

lemma keeps_lift: "keeps_self (lift r)"
  by (rule keeps_selfI) (simp add: lift_def)

lemma keeps_self_attr: "keeps_self (self_attr field)"
  by (rule keeps_selfI) (simp add: self_attr_def)

lemma keeps_print_line: "keeps_self (print_line text)"
  by (rule keeps_selfI) (simp add: print_line_def split: prod.splits)

lemma keeps_seq:
  assumes "keeps_self m" and "\<And>a. keeps_self (f a)"
  shows "keeps_self (seq m f)"
proof (rule keeps_selfI)
  fix st
  obtain r st' where run: "m st = (r, st')"
    by (cases "m st")
  have mid: "fst st' = fst st"
    using keeps_selfD [OF assms(1), of st] run by simp
  show "fst (snd (seq m f st)) = fst st"
  proof (cases r)
    case (Inl e)
    with run mid show ?thesis by (simp add: seq_def)
  next
    case (Inr a)
    have "fst (snd (f a st')) = fst st'"
      by (rule keeps_selfD [OF assms(2)])
    with run Inr mid show ?thesis by (simp add: seq_def)
  qed
qed

lemma keeps_case_prod:
  assumes "\<And>a b. keeps_self (f a b)"
  shows "keeps_self (case p of (a, b) \<Rightarrow> f a b)"
  using assms by (cases p) simp

lemma for_each_keeps:
  assumes "\<And>x. keeps_self (body x)"
  shows "fst (snd (for_each body xs st)) = fst st"
proof (induction xs arbitrary: st)
  case Nil
  show ?case by simp
next
  case (Cons x xs)
  obtain r st' where run: "body x st = (r, st')"
    by (cases "body x st")
  have "fst st' = fst st"
    using keeps_selfD [OF assms, of x st] run by simp
  with run Cons.IH [of st'] show ?case
    by (cases r) simp_all
qed

lemma keeps_for_each:
  assumes "\<And>x. keeps_self (body x)"
  shows "keeps_self (for_each body xs)"
  by (rule keeps_selfI) (rule for_each_keeps [OF assms])

lemma keeps_available_modes: "keeps_self (available_modes fmt monitor)"
  unfolding available_modes_def
  by (intro keeps_seq keeps_lift keeps_ret)

lemma keeps_print_current_mode: "keeps_self (print_current_mode fmt mode)"
  unfolding print_current_mode_def Let_def
  by (intro keeps_seq keeps_lift) (simp add: keeps_seq keeps_lift keeps_print_line keeps_ret)

lemma keeps_print_monitor_config: "keeps_self (print_monitor_config fmt monitor)"
  unfolding print_monitor_config_def
  by (intro keeps_seq keeps_lift keeps_ret keeps_print_line keeps_case_prod keeps_for_each
      keeps_print_current_mode)

lemma keeps_print_monitor: "keeps_self (print_monitor fmt monitor)"
  unfolding print_monitor_def
  by (intro keeps_seq keeps_ret keeps_print_line keeps_available_modes
      keeps_print_monitor_config)

lemma keeps_print_prop: "keeps_self (print_prop fmt ps prop)"
  unfolding print_prop_def
  by (intro keeps_seq keeps_lift keeps_print_line)

lemma keeps_print_current_state: "keeps_self (print_current_state fmt)"
  unfolding print_current_state_def
  by (intro keeps_seq keeps_lift keeps_ret keeps_print_line keeps_case_prod keeps_for_each
      keeps_print_monitor keeps_print_prop keeps_self_attr)

lemma keeps_apply_monitors_config: "keeps_self (apply_monitors_config srv)"
  by (rule keeps_selfI)
    (simp add: apply_monitors_config_def Let_def split: prod.splits sum.splits)

text \<open>
  C7. Every method that runs on a fetched object returns it as it was: the three
  builders, \<^verbatim>\<open>print_current_state\<close>, \<^verbatim>\<open>print_monitor_config\<close>, \<^verbatim>\<open>available_modes\<close> and
  \<^verbatim>\<open>apply_monitors_config\<close> leave \<^verbatim>\<open>resources\<close>, \<^verbatim>\<open>current_state\<close> and \<^verbatim>\<open>config_serial\<close>
  unchanged, whether they end normally or in an exception. The three attributes are
  written by the constructor alone.
\<close>

theorem operations_keep_snapshot:
  "fst (snd (single_mode x y sc tr pr ml st)) = fst st \<and>
   fst (snd (extand_mode x y sc tr pr ml st)) = fst st \<and>
   fst (snd (clone_mode x y sc tr pr ml st)) = fst st \<and>
   fst (snd (print_current_state fmt st)) = fst st \<and>
   fst (snd (print_monitor_config fmt monitor st)) = fst st \<and>
   fst (snd (available_modes fmt monitor st)) = fst st \<and>
   fst (snd (apply_monitors_config srv st)) = fst st"
  by (simp add: keeps_selfD [OF keeps_print_current_state]
      keeps_selfD [OF keeps_print_monitor_config] keeps_selfD [OF keeps_available_modes]
      keeps_selfD [OF keeps_apply_monitors_config]
      single_mode_def extand_mode_def clone_mode_def ret_def)

end
